theory Spec2Isabelle
  imports Complex_Main "HOL-Library.Sublist"
begin

section \<open>Python primitives used by \<open>flash_controller.py\<close>\<close>

text \<open>
  A Python \<open>str\<close> is modelled as a \<open>string\<close> whose characters are the code points
  0..255; the progress percent and every address is a Python \<open>int\<close>, hence \<open>int\<close>.
\<close>

subsection \<open>Substring search and the two pieces of \<open>str.split\<close> the code indexes\<close>

text \<open>\<open>sub in s\<close>.\<close>

fun contains :: "string \<Rightarrow> string \<Rightarrow> bool" where
  "contains sub [] = (sub = [])"
| "contains sub (c # cs) = (prefix sub (c # cs) \<or> contains sub cs)"

text \<open>The text after the first occurrence of \<open>sep\<close>, if there is one.\<close>

fun after_first :: "string \<Rightarrow> string \<Rightarrow> string option" where
  "after_first sep [] = (if sep = [] then Some [] else None)"
| "after_first sep (c # cs) =
     (if prefix sep (c # cs) then Some (drop (length sep) (c # cs)) else after_first sep cs)"

text \<open>\<open>s.split(sep)[0]\<close>: the text before the first occurrence of \<open>sep\<close> (all of \<open>s\<close> if none).\<close>

fun split_piece0 :: "string \<Rightarrow> string \<Rightarrow> string" where
  "split_piece0 sep [] = []"
| "split_piece0 sep (c # cs) = (if prefix sep (c # cs) then [] else c # split_piece0 sep cs)"

text \<open>
  \<open>s.split(sep)[1]\<close>: the text between the first and the second occurrence of \<open>sep\<close>;
  \<open>None\<close> is the IndexError of a string without \<open>sep\<close>.
\<close>

definition split_piece1 :: "string \<Rightarrow> string \<Rightarrow> string option" where
  "split_piece1 sep s = map_option (split_piece0 sep) (after_first sep s)"

subsection \<open>\<open>str.strip\<close>, \<open>str.lower\<close>, \<open>str.join\<close>\<close>

definition py_isspace :: "char \<Rightarrow> bool" where
  "py_isspace c = (c \<in> {CHR 0x09, CHR 0x0A, CHR 0x0B, CHR 0x0C, CHR 0x0D, CHR 0x1C, CHR 0x1D,
      CHR 0x1E, CHR 0x1F, CHR 0x20, CHR 0x85, CHR 0xA0})"

definition py_strip :: "string \<Rightarrow> string" where
  "py_strip s = rev (dropWhile py_isspace (rev (dropWhile py_isspace s)))"

definition lower_char :: "char \<Rightarrow> char" where
  "lower_char c =
     (let n = (of_char c :: int) in
      if (65 \<le> n \<and> n \<le> 90) \<or> (192 \<le> n \<and> n \<le> 222 \<and> n \<noteq> 215) then char_of (n + 32) else c)"

definition py_lower :: "string \<Rightarrow> string" where
  "py_lower s = map lower_char s"

fun py_join :: "string \<Rightarrow> string list \<Rightarrow> string" where
  "py_join sep [] = []"
| "py_join sep [x] = x"
| "py_join sep (x # y # ys) = x @ sep @ py_join sep (y # ys)"

text \<open>\<open>xs[-10:]\<close>.\<close>

definition last10 :: "'a list \<Rightarrow> 'a list" where
  "last10 xs = drop (length xs - 10) xs"

subsection \<open>\<open>str(n)\<close> and \<open>format(n, 'x')\<close>\<close>

definition digit_char :: "int \<Rightarrow> char" where
  "digit_char d = ''0123456789abcdef'' ! nat d"

text \<open>The digits of a non-negative number in base \<open>b\<close>, most significant first.\<close>

function to_base :: "int \<Rightarrow> int \<Rightarrow> string" where
  "to_base b n = (if n < b \<or> b < 2 then [digit_char n] else to_base b (n div b) @ [digit_char (n mod b)])"
  by pat_completeness auto
termination
proof (relation "measure (\<lambda>(b, n). nat n)")
  fix b n :: int
  assume "\<not> (n < b \<or> b < 2)"
  then have "n div b < n" and "0 < n"
    by (auto intro: int_div_less_self)
  then show "((b, n div b), (b, n)) \<in> measure (\<lambda>(b, n). nat n)"
    by simp
qed simp

declare to_base.simps [simp del]

definition py_str :: "int \<Rightarrow> string" where
  "py_str i = (if i < 0 then CHR ''-'' # to_base 10 (- i) else to_base 10 i)"

definition py_hex :: "int \<Rightarrow> string" where
  "py_hex i = (if i < 0 then CHR ''-'' # to_base 16 (- i) else to_base 16 i)"

subsection \<open>\<open>int(s, 16)\<close>\<close>

text \<open>
  The whitespace \<open>int\<close> skips around the number: the six ASCII ones, and U+0085 and U+00A0,
  which the conversion of a non-ASCII string turns into a blank first.
\<close>

definition int_isspace :: "char \<Rightarrow> bool" where
  "int_isspace c = (c \<in> {CHR 0x09, CHR 0x0A, CHR 0x0B, CHR 0x0C, CHR 0x0D, CHR 0x20, CHR 0x85, CHR 0xA0})"

definition digit_value :: "char \<Rightarrow> int option" where
  "digit_value c =
     (let n = (of_char c :: int) in
      if 48 \<le> n \<and> n \<le> 57 then Some (n - 48)
      else if 97 \<le> n \<and> n \<le> 102 then Some (n - 87)
      else if 65 \<le> n \<and> n \<le> 70 then Some (n - 55)
      else None)"

text \<open>
  The digits with single underscores between them. The flag says that the character before
  was an underscore; the scan stops at the first character that is neither.
\<close>

fun scan_digits :: "bool \<Rightarrow> int \<Rightarrow> string \<Rightarrow> (int \<times> string) option" where
  "scan_digits us acc [] = (if us then None else Some (acc, []))"
| "scan_digits us acc (c # cs) =
     (if c = CHR ''_'' then (if us then None else scan_digits True acc cs)
      else case digit_value c of
             Some d \<Rightarrow> scan_digits False (acc * 16 + d) cs
           | None \<Rightarrow> (if us then None else Some (acc, c # cs)))"

definition digits_part :: "string \<Rightarrow> (int \<times> string) option" where
  "digits_part s =
     (case s of [] \<Rightarrow> None
      | c # cs \<Rightarrow> if digit_value c = None then None else scan_digits False 0 s)"

definition skip_sign :: "string \<Rightarrow> bool \<times> string" where
  "skip_sign s =
     (case s of [] \<Rightarrow> (False, [])
      | c # cs \<Rightarrow> if c = CHR ''+'' then (False, cs) else if c = CHR ''-'' then (True, cs) else (False, s))"

definition skip_0x :: "string \<Rightarrow> string" where
  "skip_0x s =
     (case s of
        a # b # cs \<Rightarrow>
          if a = CHR ''0'' \<and> (b = CHR ''x'' \<or> b = CHR ''X'')
          then (case cs of [] \<Rightarrow> cs | u # cs' \<Rightarrow> if u = CHR ''_'' then cs' else cs)
          else s
      | _ \<Rightarrow> s)"

text \<open>\<open>None\<close> is the ValueError.\<close>

definition py_int16 :: "string \<Rightarrow> int option" where
  "py_int16 s =
     (let (neg, s2) = skip_sign (dropWhile int_isspace s) in
      case digits_part (skip_0x s2) of
        None \<Rightarrow> None
      | Some (n, rest) \<Rightarrow>
          if dropWhile int_isspace rest = [] then Some (if neg then - n else n) else None)"

subsection \<open>Float arithmetic: \<open>int((a / b) * 100)\<close>\<close>

text \<open>
  A Python float is an IEEE double; a finite one is modelled as the rational it denotes.
  \<open>double_round\<close> rounds a rational to the nearest double, ties to even, with the 53-bit
  significand of a normal number and the fixed spacing \<open>2^-1074\<close> below \<open>2^-1022\<close>.
\<close>

definition round_half_even :: "rat \<Rightarrow> int" where
  "round_half_even x =
     (let f = \<lfloor>x\<rfloor>; d = x - of_int f in
      if d < 1 / 2 then f else if 1 / 2 < d then f + 1 else if even f then f else f + 1)"

text \<open>The number of binary digits of a positive integer (\<open>int.bit_length\<close>).\<close>

function bit_length :: "int \<Rightarrow> int" where
  "bit_length n = (if n \<le> 0 then 0 else 1 + bit_length (n div 2))"
  by pat_completeness auto
termination
  by (relation "measure nat") auto

declare bit_length.simps [simp del]

text \<open>The exponent \<open>e\<close> with \<open>2^e \<le> |x| < 2^(e+1)\<close>, for \<open>x \<noteq> 0\<close>.\<close>

definition binexp :: "rat \<Rightarrow> int" where
  "binexp x =
     (let (p, q) = quotient_of x; d = bit_length \<bar>p\<bar> - bit_length q in
      if power_int 2 d \<le> \<bar>x\<bar> then d else d - 1)"

definition double_round :: "rat \<Rightarrow> rat" where
  "double_round x =
     (if x = 0 then 0
      else let u = power_int 2 (max (binexp x) (- 1022) - 52)
           in of_int (round_half_even (x / u)) * u)"

text \<open>A rounded value of \<open>2^1024\<close> or more is not a finite double.\<close>

definition overflows :: "rat \<Rightarrow> bool" where
  "overflows r = (2 ^ 1024 \<le> \<bar>r\<bar>)"

text \<open>
  \<open>a / b\<close> on two ints is the correctly rounded quotient; it raises ZeroDivisionError, and
  OverflowError when the quotient is too large for a float (\<open>None\<close>).
\<close>

definition py_truediv :: "int \<Rightarrow> int \<Rightarrow> rat option" where
  "py_truediv a b =
     (if b = 0 then None
      else let r = double_round (of_int a / of_int b) in if overflows r then None else Some r)"

text \<open>\<open>int(x)\<close> on a finite float truncates toward zero.\<close>

definition py_trunc :: "rat \<Rightarrow> int" where
  "py_trunc r = (if 0 \<le> r then \<lfloor>r\<rfloor> else \<lceil>r\<rceil>)"

text \<open>
  \<open>int((a / b) * 100)\<close>. A product beyond the doubles is \<open>inf\<close>, on which \<open>int\<close> raises
  OverflowError; \<open>None\<close> is any of the three exceptions.
\<close>

definition percent_of :: "int \<Rightarrow> int \<Rightarrow> int option" where
  "percent_of a b =
     (case py_truediv a b of
        None \<Rightarrow> None
      | Some q \<Rightarrow> let r = double_round (q * 100) in if overflows r then None else Some (py_trunc r))"

section \<open>The flash controller\<close>

subsection \<open>Results, progress events, the world outside\<close>

record FlashResult =
  success :: bool
  message :: string
  duration :: rat
  chip_type :: "string option"
  flash_size :: "string option"

text \<open>The result every failing path builds: \<open>FlashResult(success=False, message=m, duration=d)\<close>.\<close>

definition failed :: "string \<Rightarrow> rat \<Rightarrow> FlashResult" where
  "failed m d = \<lparr>success = False, message = m, duration = d, chip_type = None, flash_size = None\<rparr>"

definition succeeded :: "string \<Rightarrow> rat \<Rightarrow> string option \<Rightarrow> FlashResult" where
  "succeeded m d c = \<lparr>success = True, message = m, duration = d, chip_type = c, flash_size = None\<rparr>"

text \<open>One call of the progress callback: the percent and the message.\<close>

type_synonym event = "int \<times> string"

text \<open>
  What a call does to the world, in order: a call of the progress callback, an external
  process started (\<open>subprocess.run\<close> or \<open>subprocess.Popen\<close>, with its command line), and
  the two calls into the esptool module that \<open>erase_flash\<close> makes.
\<close>

datatype effect =
    Progress int string
  | Spawn "string list"
  | DetectChip string int
  | EraseChip

text \<open>The object \<open>esptool.detect_chip\<close> returns: its name and whether its \<open>erase_flash()\<close> raises.\<close>

record esp =
  CHIP_NAME :: string
  erase_raises :: "string option"

text \<open>
  Everything the controller reads from outside. An exception is \<open>Inl\<close> of its \<open>str\<close>.
  A process started with \<open>Popen\<close> is the lines \<open>readline\<close> returns until the process has
  exited, and its exit code. \<open>elapsed\<close> is the value of \<open>time.time() - start_time\<close>.
  \<open>os.path.getsize\<close> returns a Python int, which is never negative.
\<close>

record world =
  executable :: string
  path_exists :: "string \<Rightarrow> bool"
  getsize :: "string \<Rightarrow> string + int"
  run :: "string list \<Rightarrow> string + (int \<times> string \<times> string)"
  popen :: "string list \<Rightarrow> string + (string list \<times> int)"
  esptool :: "(string \<Rightarrow> int \<Rightarrow> string + esp) option"
  elapsed :: rat

text \<open>\<open>if self.progress_callback: self.progress_callback(p, m)\<close>; the flag says a callback is set.\<close>

definition report :: "bool \<Rightarrow> int \<Rightarrow> string \<Rightarrow> event list" where
  "report cb p m = (if cb then [(p, m)] else [])"

definition progress_effects :: "event list \<Rightarrow> effect list" where
  "progress_effects evs = map (\<lambda>(p, m). Progress p m) evs"

text \<open>The truth value of an \<open>Optional[str]\<close>.\<close>

definition truthy :: "string option \<Rightarrow> bool" where
  "truthy s = (case s of None \<Rightarrow> False | Some t \<Rightarrow> t \<noteq> [])"

subsection \<open>The line loop of \<open>_flash_with_esptool_subprocess\<close>\<close>

text \<open>
  The body of the \<open>try\<close> on a line containing \<open>Writing at 0x\<close>; \<open>None\<close> is an exception,
  which the bare \<open>except\<close> catches. The result is the new value of the local \<open>progress\<close>
  and the callback calls made.
\<close>

definition esptool_writing_try :: "bool \<Rightarrow> int \<Rightarrow> int \<Rightarrow> int \<Rightarrow> string \<Rightarrow> (int \<times> event list) option" where
  "esptool_writing_try cb firmware_size flash_address progress line =
     (case split_piece1 ''Writing at 0x'' line of
        None \<Rightarrow> None
      | Some t \<Rightarrow>
         (case py_int16 (split_piece0 ''...'' t) of
            None \<Rightarrow> None
          | Some current_addr \<Rightarrow>
              if 0 < firmware_size then
                (case percent_of (current_addr - flash_address) firmware_size of
                   None \<Rightarrow> None
                 | Some v \<Rightarrow>
                     let progress_percent = min v 99 in
                     Some (progress, report cb progress_percent
                             (''Writing firmware... '' @ py_str progress_percent @ ''%'')))
              else if flash_address < current_addr then
                (case percent_of (current_addr - flash_address) 65536 of
                   None \<Rightarrow> None
                 | Some v \<Rightarrow>
                     let p = min v 99 in
                     Some (p, report cb p (''Writing firmware... '' @ py_str p @ ''%'')))
              else Some (progress, [])))"

definition step_increment :: "bool \<Rightarrow> int \<Rightarrow> int \<times> event list" where
  "step_increment cb progress = (let p = min (progress + 2) 99 in (p, report cb p ''Writing firmware...''))"

definition esptool_line :: "bool \<Rightarrow> int \<Rightarrow> int \<Rightarrow> int \<Rightarrow> string \<Rightarrow> int \<times> event list" where
  "esptool_line cb firmware_size flash_address progress raw =
     (if raw = [] then (progress, [])
      else let line = py_strip raw in
        if contains ''Writing at 0x'' line then
          (case esptool_writing_try cb firmware_size flash_address progress line of
             Some r \<Rightarrow> r
           | None \<Rightarrow> step_increment cb progress)
        else if contains ''Hash of data verified'' line then (progress, report cb 95 ''Verifying flash...'')
        else if contains ''Hard resetting via RTS pin'' line then (progress, report cb 100 ''Flash completed!'')
        else if contains ''Connecting...'' line then (progress, report cb 35 ''Connecting to device...'')
        else if contains ''Chip is'' line then (progress, report cb 38 (''Detected: '' @ line))
        else (progress, []))"

subsection \<open>The line loop of \<open>_flash_with_platformio\<close>\<close>

definition pio_writing_try :: "bool \<Rightarrow> int \<Rightarrow> int \<Rightarrow> string \<Rightarrow> (int \<times> event list) option" where
  "pio_writing_try cb firmware_size progress line =
     (case split_piece1 ''Writing at 0x'' line of
        None \<Rightarrow> None
      | Some t \<Rightarrow>
         (case py_int16 (split_piece0 ''...'' t) of
            None \<Rightarrow> None
          | Some current_addr \<Rightarrow>
              if 0 < firmware_size then
                (case percent_of (current_addr - 0x10000) firmware_size of
                   None \<Rightarrow> None
                 | Some v \<Rightarrow>
                     let progress_percent = min v 99 in
                     Some (progress, report cb progress_percent
                             (''Writing firmware... '' @ py_str progress_percent @ ''%'')))
              else Some (step_increment cb progress)))"

definition pio_line :: "bool \<Rightarrow> int \<Rightarrow> int \<Rightarrow> string \<Rightarrow> int \<times> event list" where
  "pio_line cb firmware_size progress raw =
     (if raw = [] then (progress, [])
      else let line = py_strip raw in
        if contains ''Writing at 0x'' line then
          (case pio_writing_try cb firmware_size progress line of
             Some r \<Rightarrow> r
           | None \<Rightarrow> step_increment cb progress)
        else if contains ''Hash of data verified'' line then (progress, report cb 100 ''Flash completed!'')
        else if contains ''Hard resetting'' line then (progress, report cb 100 ''Flash completed!'')
        else if contains ''Connecting'' line then (progress, report cb 65 ''Connecting to ESP32...'')
        else (progress, []))"

subsection \<open>The \<open>while True\<close> loop over the lines read, and \<open>output_lines\<close>\<close>

fun line_loop :: "(int \<Rightarrow> string \<Rightarrow> int \<times> event list) \<Rightarrow> int \<Rightarrow> string list \<Rightarrow> event list" where
  "line_loop step progress [] = []"
| "line_loop step progress (l # ls) =
     (let (progress', evs) = step progress l in evs @ line_loop step progress' ls)"

definition output_lines :: "string list \<Rightarrow> string list" where
  "output_lines ls = map py_strip (filter (\<lambda>l. l \<noteq> []) ls)"

subsection \<open>\<open>_flash_with_esptool_subprocess\<close>\<close>

definition esptool_base_cmd :: "world \<Rightarrow> string \<Rightarrow> int \<Rightarrow> string list" where
  "esptool_base_cmd w port baud_rate =
     [executable w, ''-m'', ''esptool'', ''--port'', port, ''--baud'', py_str baud_rate]"

definition esptool_erase_cmd :: "world \<Rightarrow> string \<Rightarrow> int \<Rightarrow> string list" where
  "esptool_erase_cmd w port baud_rate =
     esptool_base_cmd w port baud_rate
       @ [''--before'', ''default-reset'', ''--after'', ''hard-reset'', ''erase-flash'']"

definition esptool_write_options :: "world \<Rightarrow> string \<Rightarrow> int \<Rightarrow> string list" where
  "esptool_write_options w port baud_rate =
     esptool_base_cmd w port baud_rate
       @ [''--before'', ''default-reset'', ''--after'', ''hard-reset'', ''write-flash'',
          ''--flash-mode'', ''dio'', ''--flash-freq'', ''40m'', ''--flash-size'', ''detect'']"

definition esptool_write_cmd :: "world \<Rightarrow> string \<Rightarrow> int \<Rightarrow> int \<Rightarrow> string \<Rightarrow> string list" where
  "esptool_write_cmd w port baud_rate flash_address firmware_path =
     esptool_write_options w port baud_rate @ [''0x'' @ py_hex flash_address, firmware_path]"

text \<open>From \<open>progress_callback(40, ...)\<close> to the end of the function.\<close>

definition esptool_write_phase ::
  "bool \<Rightarrow> world \<Rightarrow> string \<Rightarrow> string \<Rightarrow> int \<Rightarrow> int \<Rightarrow> int \<Rightarrow> FlashResult \<times> effect list" where
  "esptool_write_phase cb w port firmware_path baud_rate flash_address firmware_size =
     (let cmd = esptool_write_cmd w port baud_rate flash_address firmware_path;
          t = progress_effects (report cb 40 ''Starting firmware write...'') @ [Spawn cmd]
      in case popen w cmd of
           Inl e \<Rightarrow> (failed (''Subprocess error: '' @ e) 0, t)
         | Inr (ls, return_code) \<Rightarrow>
             (if return_code = 0 then succeeded ''Firmware flashed successfully'' 0 None
              else failed (''Esptool failed with code '' @ py_str return_code @ '': ''
                             @ py_join [CHR 0x0A] (last10 (output_lines ls))) 0,
              t @ progress_effects (line_loop (esptool_line cb firmware_size flash_address) 40 ls)))"

definition flash_with_esptool_subprocess ::
  "bool \<Rightarrow> world \<Rightarrow> string \<Rightarrow> string \<Rightarrow> int \<Rightarrow> int \<Rightarrow> bool \<Rightarrow> bool \<Rightarrow> FlashResult \<times> effect list" where
  "flash_with_esptool_subprocess cb w port firmware_path baud_rate flash_address erase_all verify =
     (case getsize w firmware_path of
        Inl e \<Rightarrow> (failed (''Subprocess error: '' @ e) 0, [])
      | Inr firmware_size \<Rightarrow>
          let t0 = progress_effects (report cb 0 ''Starting flash operation...'') in
          if erase_all then
            (let t1 = t0 @ progress_effects (report cb 10 ''Erasing flash...'')
                         @ [Spawn (esptool_erase_cmd w port baud_rate)]
             in case run w (esptool_erase_cmd w port baud_rate) of
                  Inl e \<Rightarrow> (failed (''Subprocess error: '' @ e) 0, t1)
                | Inr (returncode, out, err) \<Rightarrow>
                    if returncode \<noteq> 0 then (failed (''Erase failed: '' @ err) 0, t1)
                    else
                      (let (r, t) = esptool_write_phase cb w port firmware_path baud_rate
                                      flash_address firmware_size
                       in (r, t1 @ progress_effects (report cb 30 ''Flash erased, starting write...'') @ t)))
          else
            (let (r, t) = esptool_write_phase cb w port firmware_path baud_rate
                            flash_address firmware_size
             in (r, t0 @ t)))"

subsection \<open>\<open>_flash_with_platformio\<close>\<close>

definition pio_esptool :: "string list" where
  "pio_esptool = [''pio'', ''pkg'', ''exec'', ''--package'', ''tool-esptoolpy'', ''--'', ''esptool.py'']"

definition pio_detect_cmd :: "string \<Rightarrow> string list" where
  "pio_detect_cmd port = pio_esptool @ [''--port'', port, ''chip_id'']"

definition pio_erase_cmd :: "string \<Rightarrow> int \<Rightarrow> string list" where
  "pio_erase_cmd port baud_rate =
     pio_esptool @ [''--port'', port, ''--baud'', py_str baud_rate,
                    ''--before'', ''default_reset'', ''--after'', ''hard_reset'', ''erase_flash'']"

definition pio_write_options :: "string \<Rightarrow> int \<Rightarrow> string list" where
  "pio_write_options port baud_rate =
     pio_esptool @ [''--port'', port, ''--baud'', py_str baud_rate,
                    ''--before'', ''default_reset'', ''--after'', ''hard_reset'',
                    ''write_flash'', ''--flash_mode'', ''dio'', ''--flash_freq'', ''80m'',
                    ''--flash_size'', ''detect'']"

text \<open>\<open>if path and Path(path).exists(): flash_cmd.extend([address, path])\<close>.\<close>

definition companion :: "world \<Rightarrow> string \<Rightarrow> string option \<Rightarrow> string list" where
  "companion w address path =
     (case path of
        None \<Rightarrow> []
      | Some p \<Rightarrow> if p \<noteq> [] \<and> path_exists w p then [address, p] else [])"

definition pio_flash_cmd ::
  "world \<Rightarrow> string \<Rightarrow> int \<Rightarrow> string \<Rightarrow> string option \<Rightarrow> string option \<Rightarrow> string list" where
  "pio_flash_cmd w port baud_rate firmware_path bootloader_path partitions_path =
     pio_write_options port baud_rate
       @ companion w ''0x0000'' bootloader_path
       @ companion w ''0x8000'' partitions_path
       @ [''0x10000'', firmware_path]"

definition pio_chip_type :: "string \<Rightarrow> string" where
  "pio_chip_type stdout =
     (let output = py_lower stdout in
      if contains ''esp32-s3'' output then ''esp32-s3-devkitm-1''
      else if contains ''esp32-s2'' output then ''esp32-s2-saola-1''
      else if contains ''esp32-c3'' output then ''esp32-c3-devkitm-1''
      else if contains ''esp32'' output then ''esp32dev''
      else ''esp32-s3-devkitm-1'')"

text \<open>The inner \<open>try\<close> that runs \<open>chip_id\<close>; its \<open>except: pass\<close> swallows a failed start.\<close>

definition pio_detect_phase :: "bool \<Rightarrow> world \<Rightarrow> string \<Rightarrow> effect list" where
  "pio_detect_phase cb w port =
     Spawn (pio_detect_cmd port) #
       (case run w (pio_detect_cmd port) of
          Inl e \<Rightarrow> []
        | Inr (returncode, out, err) \<Rightarrow>
            if returncode = 0
            then progress_effects (report cb 15 (''Detected chip: '' @ pio_chip_type out))
            else [])"

text \<open>From the construction of \<open>flash_cmd\<close> to the end of the function.\<close>

definition pio_write_phase ::
  "bool \<Rightarrow> world \<Rightarrow> string \<Rightarrow> string \<Rightarrow> int \<Rightarrow> string option \<Rightarrow> string option \<Rightarrow> FlashResult \<times> effect list" where
  "pio_write_phase cb w port firmware_path baud_rate bootloader_path partitions_path =
     (let flash_cmd = pio_flash_cmd w port baud_rate firmware_path bootloader_path partitions_path
      in case getsize w firmware_path of
           Inl e \<Rightarrow> (failed (''PlatformIO error: '' @ e) 0, [])
         | Inr firmware_size \<Rightarrow>
             (let t = progress_effects (report cb 0
                        (if truthy bootloader_path \<and> truthy partitions_path
                         then ''Starting complete ESP32-S3 flash (bootloader + partitions + app)...''
                         else ''Starting app-only flash (may not boot without bootloader)...''))
                      @ [Spawn flash_cmd]
              in case popen w flash_cmd of
                   Inl e \<Rightarrow> (failed (''PlatformIO error: '' @ e) 0, t)
                 | Inr (ls, return_code) \<Rightarrow>
                     (if return_code = 0 then succeeded ''Firmware flashed successfully with PlatformIO'' 0 None
                      else failed (''PlatformIO flash failed: '' @ py_join [CHR 0x0A] (last10 (output_lines ls))) 0,
                      t @ progress_effects (line_loop (pio_line cb firmware_size) 0 ls))))"

definition flash_with_platformio ::
  "bool \<Rightarrow> world \<Rightarrow> string \<Rightarrow> string \<Rightarrow> int \<Rightarrow> int \<Rightarrow> bool \<Rightarrow> bool \<Rightarrow> string option \<Rightarrow> string option
     \<Rightarrow> FlashResult \<times> effect list" where
  "flash_with_platformio cb w port firmware_path baud_rate flash_address erase_all verify
       bootloader_path partitions_path =
     (let t0 = [Spawn [''pio'', ''--version'']] in
      case run w [''pio'', ''--version''] of
        Inl e \<Rightarrow> (failed (''PlatformIO error: '' @ e) 0, t0)
      | Inr (returncode, out, err) \<Rightarrow>
          if returncode \<noteq> 0 then (failed ''PlatformIO not found'' 0, t0)
          else
            (let t1 = t0 @ progress_effects (report cb 5 ''Using PlatformIO for reliable flashing...'')
                         @ pio_detect_phase cb w port
             in if erase_all then
                  (let t2 = t1 @ progress_effects (report cb 30 ''Erasing flash with PlatformIO...'')
                               @ [Spawn (pio_erase_cmd port baud_rate)]
                   in case run w (pio_erase_cmd port baud_rate) of
                        Inl e \<Rightarrow> (failed (''PlatformIO error: '' @ e) 0, t2)
                      | Inr (erase_code, erase_out, erase_err) \<Rightarrow>
                          if erase_code \<noteq> 0
                          then (failed (''PlatformIO erase failed: '' @ erase_err) 0, t2)
                          else
                            (let (r, t) = pio_write_phase cb w port firmware_path baud_rate
                                            bootloader_path partitions_path
                             in (r, t2 @ progress_effects (report cb 50 ''Flash erased, uploading firmware...'') @ t)))
                else
                  (let (r, t) = pio_write_phase cb w port firmware_path baud_rate
                                  bootloader_path partitions_path
                   in (r, t1 @ t))))"

subsection \<open>\<open>flash_firmware\<close> and \<open>erase_flash\<close>\<close>

text \<open>
  The test that sends \<open>flash_firmware\<close> to the second backend:
  \<open>not result.success and "platformio not found" in result.message.lower()\<close>.
\<close>

definition wants_fallback :: "FlashResult \<Rightarrow> bool" where
  "wants_fallback r = (\<not> success r \<and> contains ''platformio not found'' (py_lower (message r)))"

text \<open>
  Both backends catch every exception and the callback is taken not to raise, so the
  \<open>except Exception\<close> of \<open>flash_firmware\<close> has no branch here.
\<close>

definition flash_firmware ::
  "bool \<Rightarrow> world \<Rightarrow> string \<Rightarrow> string \<Rightarrow> int \<Rightarrow> int \<Rightarrow> bool \<Rightarrow> bool \<Rightarrow> string option \<Rightarrow> string option
     \<Rightarrow> FlashResult \<times> effect list" where
  "flash_firmware cb w port firmware_path baud_rate flash_address erase_all verify
       bootloader_path partitions_path =
     (if \<not> path_exists w firmware_path
      then (failed (''Firmware file not found: '' @ firmware_path) 0, [])
      else
        (let t0 = progress_effects (report cb 0 ''Connecting to device...'');
             (r1, t1) = flash_with_platformio cb w port firmware_path baud_rate flash_address
                          erase_all verify bootloader_path partitions_path
         in if wants_fallback r1
            then (let (r2, t2) = flash_with_esptool_subprocess cb w port firmware_path baud_rate
                                   flash_address erase_all verify
                  in (r2\<lparr>duration := elapsed w\<rparr>, t0 @ t1 @ t2))
            else (r1\<lparr>duration := elapsed w\<rparr>, t0 @ t1)))"

definition erase_subprocess_cmd :: "world \<Rightarrow> string \<Rightarrow> int \<Rightarrow> string list" where
  "erase_subprocess_cmd w port baud_rate =
     [executable w, ''-m'', ''esptool'', ''--port'', port, ''--baud'', py_str baud_rate, ''erase_flash'']"

definition erase_flash :: "bool \<Rightarrow> world \<Rightarrow> string \<Rightarrow> int \<Rightarrow> FlashResult \<times> effect list" where
  "erase_flash cb w port baud_rate =
     (let t0 = progress_effects (report cb 0 ''Connecting to device...'') in
      case esptool w of
        Some detect_chip \<Rightarrow>
          (let t1 = t0 @ [DetectChip port baud_rate] in
           case detect_chip port baud_rate of
             Inl e \<Rightarrow> (failed (''Erase operation failed: '' @ e) (elapsed w), t1)
           | Inr chip \<Rightarrow>
               (let t2 = t1 @ progress_effects (report cb 20 ''Erasing flash...'') @ [EraseChip] in
                case erase_raises chip of
                  Some e \<Rightarrow> (failed (''Erase operation failed: '' @ e) (elapsed w), t2)
                | None \<Rightarrow>
                    (succeeded ''Flash erased successfully'' (elapsed w) (Some (CHIP_NAME chip)),
                     t2 @ progress_effects (report cb 100 ''Flash erased successfully!''))))
      | None \<Rightarrow>
          (let t1 = t0 @ [Spawn (erase_subprocess_cmd w port baud_rate)] in
           case run w (erase_subprocess_cmd w port baud_rate) of
             Inl e \<Rightarrow> (failed (''Erase operation failed: '' @ e) (elapsed w), t1)
           | Inr (returncode, out, err) \<Rightarrow>
               if returncode = 0 then (succeeded ''Flash erased successfully'' (elapsed w) None, t1)
               else (failed (''Erase failed: '' @ err) (elapsed w), t1)))"

subsection \<open>Concrete worlds\<close>

text \<open>
  A machine on which \<open>fw.bin\<close>, \<open>bootloader.bin\<close> and \<open>partitions.bin\<close> exist, the
  firmware has 65536 bytes, the esptool module is not importable, and the external
  processes behave as the two arguments say.
\<close>

definition sample_world ::
  "(string list \<Rightarrow> string + (int \<times> string \<times> string)) \<Rightarrow> (string list \<Rightarrow> string + (string list \<times> int)) \<Rightarrow> world" where
  "sample_world r p =
     \<lparr>executable = ''python'',
      path_exists = (\<lambda>f. f \<in> {''fw.bin'', ''bootloader.bin'', ''partitions.bin''}),
      getsize = (\<lambda>f. Inr 65536),
      run = r, popen = p, esptool = None, elapsed = 3\<rparr>"

text \<open>Every \<open>subprocess.run\<close> exits with code 0 and prints nothing.\<close>

definition run_ok :: "string list \<Rightarrow> string + (int \<times> string \<times> string)" where
  "run_ok cmd = Inr (0, [], [])"


text \<open>Every process started with \<open>Popen\<close> prints the given lines and exits with the given code.\<close>

definition popen_lines :: "string list \<Rightarrow> int \<Rightarrow> string list \<Rightarrow> string + (string list \<times> int)" where
  "popen_lines ls code cmd = Inr (ls, code)"


subsection \<open>Vocabulary of the properties\<close>


text \<open>
  The percents of the events of the step-increment policy: the calls whose message is
  \<open>Writing firmware...\<close> with no percent in it.
\<close>

definition step_percents :: "event list \<Rightarrow> int list" where
  "step_percents evs = map fst (filter (\<lambda>e. snd e = ''Writing firmware...'') evs)"

section \<open>Properties\<close>

subsection \<open>A missing firmware file\<close>



subsection \<open>Erasing\<close>

text \<open>
  C9, evaluated where it fails. Without the esptool module \<open>erase_flash\<close> runs the
  subprocess; when that exits with code 0 the call succeeds, and the only callback call
  made is the one at 0 percent: no event at 100 percent, which the module path emits.
\<close>

theorem erase_flash_subprocess_no_completion_event:
  "erase_flash True (sample_world run_ok (popen_lines [] 0)) ''COM3'' 460800
     = (\<lparr>success = True, message = ''Flash erased successfully'', duration = 3,
         chip_type = None, flash_size = None\<rparr>,
        [Progress 0 ''Connecting to device...'',
         Spawn [''python'', ''-m'', ''esptool'', ''--port'', ''COM3'', ''--baud'', ''460800'',
                ''erase_flash'']])"
  by code_simp

subsection \<open>Companion files in the primary backend\<close>






subsection \<open>The range of the percent\<close>

text \<open>
  C3, evaluated where it fails. The primary backend writes the bootloader at \<open>0x0000\<close>
  and measures every address from \<open>0x10000\<close>. On the line the tool prints for the
  bootloader block at address 0, with a firmware of 65536 bytes, the callback is called
  with the percent \<open>-100\<close>.
\<close>

theorem pio_negative_percent:
  "Progress (- 100) ''Writing firmware... -100%''
     \<in> set (snd (flash_firmware True
           (sample_world run_ok (popen_lines [''Writing at 0x00000000... (100 %)''] 0))
           ''COM3'' ''fw.bin'' 460800 65536 False True
           (Some ''bootloader.bin'') (Some ''partitions.bin'')))"
  by code_simp

subsection \<open>The integrity line\<close>

lemma py_strip_Nil [simp]: "py_strip [] = []"
  by (simp add: py_strip_def)

text \<open>
  C7, as the code has it. A line that contains \<open>Hash of data verified\<close> and does not
  contain \<open>Writing at 0x\<close> makes the fallback backend call the callback once, with 95 and
  \<open>Verifying flash...\<close>, and makes the primary backend call it once, with 100 and
  \<open>Flash completed!\<close>; neither changes the step counter.
\<close>

theorem hash_verified_line:
  assumes "contains ''Hash of data verified'' (py_strip raw)"
    and "\<not> contains ''Writing at 0x'' (py_strip raw)"
  shows "esptool_line True firmware_size flash_address progress raw
           = (progress, [(95, ''Verifying flash...'')])
       \<and> pio_line True firmware_size progress raw = (progress, [(100, ''Flash completed!'')])"
proof -
  from assms(1) have "raw \<noteq> []"
    by auto
  with assms show ?thesis
    by (simp add: esptool_line_def pio_line_def report_def Let_def)
qed

theorem hash_verified_line_witness:
  "esptool_line True 65536 4096 40 ''Hash of data verified.'' = (40, [(95, ''Verifying flash...'')])
   \<and> pio_line True 65536 0 ''Hash of data verified.'' = (0, [(100, ''Flash completed!'')])"
proof -
  have h: "contains ''Hash of data verified'' (py_strip ''Hash of data verified.'')"
    by code_simp
  have n: "\<not> contains ''Writing at 0x'' (py_strip ''Hash of data verified.'')"
    by code_simp
  show ?thesis
    using hash_verified_line [OF h n, of 65536 4096 40] hash_verified_line [OF h n, of 65536 4096 0]
    by blast
qed

text \<open>
  The claim as stated fails in the primary backend: the integrity line is reported there
  with 100 and the completion message, not with 95 and a verifying message.
\<close>

theorem pio_hash_verified_is_100:
  "pio_line True 204800 0 ''Hash of data verified.'' = (0, [(100, ''Flash completed!'')])"
  by code_simp

subsection \<open>The segments of the write command\<close>

lemma no_spawn_in_progress [simp]: "Spawn cmd \<notin> set (progress_effects evs)"
  by (auto simp: progress_effects_def)

lemma pio_write_phase_spawns:
  "Spawn cmd \<in> set (snd (pio_write_phase cb w port fw baud_rate bl pt)) \<Longrightarrow>
     cmd = pio_flash_cmd w port baud_rate fw bl pt"
  by (auto simp: pio_write_phase_def Let_def split: sum.splits prod.splits)

lemma pio_detect_phase_spawns:
  "Spawn cmd \<in> set (pio_detect_phase cb w port) \<Longrightarrow> cmd = pio_detect_cmd port"
  by (auto simp: pio_detect_phase_def split: sum.splits prod.splits if_splits)

lemma flash_with_platformio_spawns:
  assumes "Spawn cmd \<in> set (snd (flash_with_platformio cb w port fw baud_rate fa ea v bl pt))"
  shows "cmd \<in> {[''pio'', ''--version''], pio_detect_cmd port, pio_erase_cmd port baud_rate,
                 pio_flash_cmd w port baud_rate fw bl pt}"
  using assms
  by (auto simp: flash_with_platformio_def Let_def split_beta
        split: sum.splits prod.splits if_splits
        dest: pio_write_phase_spawns pio_detect_phase_spawns)

lemma esptool_write_phase_spawns:
  "Spawn cmd \<in> set (snd (esptool_write_phase cb w port fw baud_rate fa fs)) \<Longrightarrow>
     cmd = esptool_write_cmd w port baud_rate fa fw"
  by (auto simp: esptool_write_phase_def Let_def split: sum.splits prod.splits)

lemma flash_with_esptool_subprocess_spawns:
  assumes "Spawn cmd \<in> set (snd (flash_with_esptool_subprocess cb w port fw baud_rate fa ea v))"
  shows "cmd \<in> {esptool_erase_cmd w port baud_rate, esptool_write_cmd w port baud_rate fa fw}"
  using assms
  by (auto simp: flash_with_esptool_subprocess_def Let_def split_beta
        split: sum.splits prod.splits if_splits
        dest: esptool_write_phase_spawns)

text \<open>
  C4, as the code has it. With no companion file supplied, every process either backend
  starts is one of its auxiliary commands or the write command, and the write command is
  its fixed options followed by exactly one address and one file: in the fallback backend
  the address is \<open>0x\<close> followed by the request's flash address in hexadecimal, in the
  primary backend it is the constant \<open>0x10000\<close>, whatever the request's flash address.
\<close>

theorem single_segment_write_command:
  "(Spawn cmd \<in> set (snd (flash_with_platformio cb w port fw baud_rate fa ea v None None)) \<longrightarrow>
      cmd \<in> {[''pio'', ''--version''], pio_detect_cmd port, pio_erase_cmd port baud_rate,
               pio_write_options port baud_rate @ [''0x10000'', fw]})
   \<and> (Spawn cmd' \<in> set (snd (flash_with_esptool_subprocess cb w port fw baud_rate fa ea v)) \<longrightarrow>
      cmd' \<in> {esptool_erase_cmd w port baud_rate,
                esptool_write_options w port baud_rate @ [''0x'' @ py_hex fa, fw]})"
proof (intro conjI impI)
  assume "Spawn cmd \<in> set (snd (flash_with_platformio cb w port fw baud_rate fa ea v None None))"
  from flash_with_platformio_spawns [OF this]
  show "cmd \<in> {[''pio'', ''--version''], pio_detect_cmd port, pio_erase_cmd port baud_rate,
               pio_write_options port baud_rate @ [''0x10000'', fw]}"
    by (simp add: pio_flash_cmd_def companion_def)
next
  assume "Spawn cmd' \<in> set (snd (flash_with_esptool_subprocess cb w port fw baud_rate fa ea v))"
  from flash_with_esptool_subprocess_spawns [OF this]
  show "cmd' \<in> {esptool_erase_cmd w port baud_rate,
                esptool_write_options w port baud_rate @ [''0x'' @ py_hex fa, fw]}"
    by (simp add: esptool_write_cmd_def)
qed

theorem single_segment_write_command_witness:
  "pio_write_options ''COM3'' 460800 @ [''0x10000'', ''fw.bin'']
     \<in> {[''pio'', ''--version''], pio_detect_cmd ''COM3'', pio_erase_cmd ''COM3'' 460800,
         pio_write_options ''COM3'' 460800 @ [''0x10000'', ''fw.bin'']}
   \<and> esptool_write_options (sample_world run_ok (popen_lines [] 0)) ''COM3'' 460800 @ [''0x1000'', ''fw.bin'']
     \<in> {esptool_erase_cmd (sample_world run_ok (popen_lines [] 0)) ''COM3'' 460800,
         esptool_write_options (sample_world run_ok (popen_lines [] 0)) ''COM3'' 460800
           @ [''0x'' @ py_hex 4096, ''fw.bin'']}"
proof -
  let ?w = "sample_world run_ok (popen_lines [] 0)"
  have a: "Spawn (pio_write_options ''COM3'' 460800 @ [''0x10000'', ''fw.bin''])
             \<in> set (snd (flash_with_platformio True ?w ''COM3'' ''fw.bin'' 460800 4096 False True None None))"
    by code_simp
  have b: "Spawn (esptool_write_options ?w ''COM3'' 460800 @ [''0x1000'', ''fw.bin''])
             \<in> set (snd (flash_with_esptool_subprocess True ?w ''COM3'' ''fw.bin'' 460800 4096 False True))"
    by code_simp
  from single_segment_write_command
    [of "pio_write_options ''COM3'' 460800 @ [''0x10000'', ''fw.bin'']" True ?w "''COM3''" "''fw.bin''"
        460800 4096 False True "esptool_write_options ?w ''COM3'' 460800 @ [''0x1000'', ''fw.bin'']"]
    a b
  show ?thesis
    by blast
qed

text \<open>
  The claim as stated fails in the primary backend: for the flash address \<open>0x1000\<close> the
  command it starts writes the application at \<open>0x10000\<close>, and no command with the
  address \<open>0x1000\<close> is started.
\<close>

theorem pio_write_address_is_constant:
  "Spawn (pio_write_options ''COM3'' 460800 @ [''0x10000'', ''fw.bin''])
     \<in> set (snd (flash_with_platformio True (sample_world run_ok (popen_lines [] 0))
                    ''COM3'' ''fw.bin'' 460800 4096 False True None None))
   \<and> Spawn (pio_write_options ''COM3'' 460800 @ [''0x'' @ py_hex 4096, ''fw.bin''])
     \<notin> set (snd (flash_with_platformio True (sample_world run_ok (popen_lines [] 0))
                    ''COM3'' ''fw.bin'' 460800 4096 False True None None))"
  by code_simp

subsection \<open>Malformed addresses\<close>

lemma contains_iff_after_first: "contains sep s \<longleftrightarrow> after_first sep s \<noteq> None"
  by (induction s) auto

lemma split_piece1_contains: "split_piece1 sep s = Some t \<Longrightarrow> contains sep s"
  by (auto simp: split_piece1_def contains_iff_after_first)




subsection \<open>Order of the percents within one session\<close>

lemma step_percents_append [simp]:
  "step_percents (xs @ ys) = step_percents xs @ step_percents ys"
  by (simp add: step_percents_def)

lemma step_percents_Nil [simp]: "step_percents [] = []"
  by (simp add: step_percents_def)

lemma line_loop_steps_sorted:
  assumes P: "\<And>p l p' evs. step p l = (p', evs) \<Longrightarrow>
      (p' = p \<or> p' = min (p + 2) 99)
      \<and> (step_percents evs = [] \<or> step_percents evs = [p'] \<and> p' = min (p + 2) 99)"
  shows "sorted (step_percents (line_loop step p ls))
       \<and> (\<forall>x \<in> set (step_percents (line_loop step p ls)). min (p + 2) 99 \<le> x)"
proof (induction ls arbitrary: p)
  case Nil
  show ?case by simp
next
  case (Cons l ls)
  obtain p' evs where s: "step p l = (p', evs)"
    by (cases "step p l")
  note ih = Cons.IH [of p']
  from P [OF s] have a: "p' = p \<or> p' = min (p + 2) 99"
    and b: "step_percents evs = [] \<or> step_percents evs = [p'] \<and> p' = min (p + 2) 99"
    by blast+
  from a have m: "min (p + 2) 99 \<le> min (p' + 2) 99"
    by auto
  from b show ?case
  proof
    assume "step_percents evs = []"
    with s ih m show ?thesis
      by (auto simp: sorted_append)
  next
    assume "step_percents evs = [p'] \<and> p' = min (p + 2) 99"
    with s ih m show ?thesis
      by (auto simp: sorted_append)
  qed
qed

lemma pio_line_step:
  assumes "pio_line cb fs p l = (p', evs)"
  shows "(p' = p \<or> p' = min (p + 2) 99)
      \<and> (step_percents evs = [] \<or> step_percents evs = [p'] \<and> p' = min (p + 2) 99)"
  using assms
  by (auto simp: pio_line_def pio_writing_try_def step_increment_def report_def Let_def
        step_percents_def split: if_splits option.splits)

lemma esptool_line_step:
  assumes "esptool_line cb fs fa p l = (p', evs)" and "0 < fs"
  shows "(p' = p \<or> p' = min (p + 2) 99)
      \<and> (step_percents evs = [] \<or> step_percents evs = [p'] \<and> p' = min (p + 2) 99)"
  using assms
  by (auto simp: esptool_line_def esptool_writing_try_def step_increment_def report_def Let_def
        step_percents_def split: if_splits option.splits)

text \<open>
  C1, as the code has it. No maximum of the percents delivered is kept: a line with a
  fixed percent or with an address is reported with the percent computed for it,
  whatever was delivered before. What never decreases within a session is the step
  counter: the percents delivered by the step-increment policy are in non-decreasing
  order among themselves, in the primary backend always and in the fallback backend
  when the firmware size is positive.
\<close>

theorem step_increment_percents_sorted:
  "sorted (step_percents (line_loop (pio_line cb firmware_size) progress ls))
   \<and> (0 < firmware_size \<longrightarrow>
        sorted (step_percents (line_loop (esptool_line cb firmware_size flash_address) progress ls)))"
proof (intro conjI impI)
  show "sorted (step_percents (line_loop (pio_line cb firmware_size) progress ls))"
  proof (rule conjunct1 [OF line_loop_steps_sorted])
    fix p l p' evs
    assume "pio_line cb firmware_size p l = (p', evs)"
    then show "(p' = p \<or> p' = min (p + 2) 99)
      \<and> (step_percents evs = [] \<or> step_percents evs = [p'] \<and> p' = min (p + 2) 99)"
      by (rule pio_line_step)
  qed
next
  assume pos: "0 < firmware_size"
  show "sorted (step_percents (line_loop (esptool_line cb firmware_size flash_address) progress ls))"
  proof (rule conjunct1 [OF line_loop_steps_sorted])
    fix p l p' evs
    assume "esptool_line cb firmware_size flash_address p l = (p', evs)"
    then show "(p' = p \<or> p' = min (p + 2) 99)
      \<and> (step_percents evs = [] \<or> step_percents evs = [p'] \<and> p' = min (p + 2) 99)"
      using pos by (rule esptool_line_step)
  qed
qed

theorem step_increment_percents_sorted_witness:
  "sorted (step_percents (line_loop (esptool_line True 65536 4096) 40
       [''Writing at 0xZZ...'', ''Connecting...'', ''Writing at 0xYY...'']))"
proof -
  have "(0::int) < 65536"
    by simp
  with step_increment_percents_sorted [of True 65536 40
      "[''Writing at 0xZZ...'', ''Connecting...'', ''Writing at 0xYY...'']" 4096]
  show ?thesis
    by blast
qed

text \<open>
  The claim as stated fails in an ordinary session of the fallback backend: the callback
  receives 40 before the process is started, then 35 for the connection line, 38 for the
  chip line and 0 for the first address line.
\<close>

theorem esptool_session_percents_decrease:
  "snd (flash_with_esptool_subprocess True
         (sample_world run_ok
            (popen_lines [''Connecting....'', ''Chip is ESP32-S3'', ''Writing at 0x00001000... (1 %)''] 0))
         ''COM3'' ''fw.bin'' 460800 4096 False True)
     = [Progress 0 ''Starting flash operation...'',
        Progress 40 ''Starting firmware write...'',
        Spawn [''python'', ''-m'', ''esptool'', ''--port'', ''COM3'', ''--baud'', ''460800'',
               ''--before'', ''default-reset'', ''--after'', ''hard-reset'', ''write-flash'',
               ''--flash-mode'', ''dio'', ''--flash-freq'', ''40m'', ''--flash-size'', ''detect'',
               ''0x1000'', ''fw.bin''],
        Progress 35 ''Connecting to device...'',
        Progress 38 ''Detected: Chip is ESP32-S3'',
        Progress 0 ''Writing firmware... 0%'']"
  by code_simp

subsection \<open>When the fallback backend runs\<close>






subsection \<open>The percent computed from an address\<close>

text \<open>Bounds of \<open>bit_length\<close> and of the binary exponent.\<close>

lemma bit_length_pos: "0 < n \<Longrightarrow> 1 \<le> bit_length n"
proof (induction n rule: bit_length.induct)
  case (1 n)
  show ?case
  proof (cases "n div 2 \<le> 0")
    case True
    with "1.prems" have "n = 1"
      by presburger
    then show ?thesis
      by (simp add: bit_length.simps [of 1] bit_length.simps [of 0])
  next
    case False
    with "1.prems" "1.IH" have "1 \<le> bit_length (n div 2)"
      by simp
    with "1.prems" show ?thesis
      by (simp add: bit_length.simps [of n])
  qed
qed

lemma bit_length_bounds:
  "0 < n \<Longrightarrow> 2 ^ nat (bit_length n - 1) \<le> n \<and> n < 2 ^ nat (bit_length n)"
proof (induction n rule: bit_length.induct)
  case (1 n)
  show ?case
  proof (cases "n div 2 \<le> 0")
    case True
    with "1.prems" have "n = 1"
      by presburger
    then show ?thesis
      by (simp add: bit_length.simps [of 1] bit_length.simps [of 0])
  next
    case False
    then have h: "0 < n div 2"
      by simp
    with "1.prems" "1.IH"
    have ih: "2 ^ nat (bit_length (n div 2) - 1) \<le> n div 2" "n div 2 < 2 ^ nat (bit_length (n div 2))"
      by simp_all
    from bit_length_pos [OF h] obtain k where k: "nat (bit_length (n div 2)) = Suc k"
      by (cases "nat (bit_length (n div 2))") auto
    then have k': "nat (bit_length (n div 2) - 1) = k"
      by simp
    have bl: "bit_length n = 1 + bit_length (n div 2)"
      using "1.prems" by (simp add: bit_length.simps [of n])
    from ih k k' have "2 ^ k \<le> n div 2" "n div 2 < 2 ^ Suc k"
      by simp_all
    moreover have "2 * (n div 2) \<le> n" "n < 2 * (n div 2) + 2"
      by presburger+
    ultimately have "2 ^ Suc k \<le> n" "n < 2 ^ Suc (Suc k)"
      by simp_all
    moreover have "nat (bit_length n - 1) = Suc k" "nat (bit_length n) = Suc (Suc k)"
      using bl k bit_length_pos [OF h] by simp_all
    ultimately show ?thesis
      by simp
  qed
qed

lemma bit_length_powi:
  assumes "0 < n"
  shows "2 powi (bit_length n - 1) \<le> (of_int n :: rat)" and "(of_int n :: rat) < 2 powi (bit_length n)"
proof -
  from bit_length_bounds [OF assms]
  have a: "2 ^ nat (bit_length n - 1) \<le> n" and b: "n < 2 ^ nat (bit_length n)"
    by simp_all
  from a have "(of_int (2 ^ nat (bit_length n - 1)) :: rat) \<le> of_int n"
    by (simp only: of_int_le_iff)
  then show "2 powi (bit_length n - 1) \<le> (of_int n :: rat)"
    using bit_length_pos [OF assms] by (simp add: power_int_nonneg_exp)
  from b have "(of_int n :: rat) < of_int (2 ^ nat (bit_length n))"
    by (simp only: of_int_less_iff)
  then show "(of_int n :: rat) < 2 powi (bit_length n)"
    using bit_length_pos [OF assms] by (simp add: power_int_nonneg_exp)
qed

lemma binexp_bounds:
  assumes "x \<noteq> 0"
  shows "2 powi (binexp x) \<le> \<bar>x\<bar>" and "\<bar>x\<bar> < 2 powi (binexp x + 1)"
proof -
  obtain p q where pq: "quotient_of x = (p, q)"
    by (cases "quotient_of x")
  then have q: "0 < q" and x: "x = of_int p / of_int q"
    by (auto dest: quotient_of_denom_pos quotient_of_div)
  with assms have p: "0 < \<bar>p\<bar>"
    by auto
  from x q have ax: "\<bar>x\<bar> = of_int \<bar>p\<bar> / of_int q"
    by simp
  define d where "d = bit_length \<bar>p\<bar> - bit_length q"
  note P = bit_length_powi [OF p] and Q = bit_length_powi [OF q]
  have lo: "2 powi (d - 1) < \<bar>x\<bar>"
  proof -
    have "(2::rat) powi (bit_length \<bar>p\<bar> - 1) / 2 powi (bit_length q) < of_int \<bar>p\<bar> / of_int q"
      using P(1) Q(2) q by (intro frac_less2) simp_all
    moreover have "(2::rat) powi (d - 1) = 2 powi (bit_length \<bar>p\<bar> - 1) / 2 powi (bit_length q)"
      by (simp add: d_def power_int_diff [symmetric] algebra_simps)
    ultimately show ?thesis
      using ax by simp
  qed
  have hi: "\<bar>x\<bar> < 2 powi (d + 1)"
  proof -
    have "of_int \<bar>p\<bar> / of_int q < (2::rat) powi (bit_length \<bar>p\<bar>) / 2 powi (bit_length q - 1)"
      using P(2) Q(1) p by (intro frac_less) simp_all
    moreover have "(2::rat) powi (d + 1) = 2 powi (bit_length \<bar>p\<bar>) / 2 powi (bit_length q - 1)"
      by (simp add: d_def power_int_diff [symmetric] algebra_simps)
    ultimately show ?thesis
      using ax by simp
  qed
  have e: "binexp x = (if 2 powi d \<le> \<bar>x\<bar> then d else d - 1)"
    by (simp add: binexp_def pq d_def Let_def)
  show "2 powi (binexp x) \<le> \<bar>x\<bar>"
    using lo by (simp add: e)
  show "\<bar>x\<bar> < 2 powi (binexp x + 1)"
    using hi by (simp add: e not_le)
qed

text \<open>The error of rounding to a double.\<close>

lemma round_half_even_error: "\<bar>of_int (round_half_even z) - z\<bar> \<le> 1 / 2"
proof -
  define d where "d = z - of_int \<lfloor>z\<rfloor>"
  have d: "0 \<le> d" "d < 1"
    unfolding d_def by linarith+
  have z: "z = of_int \<lfloor>z\<rfloor> + d"
    by (simp add: d_def)
  consider "d < 1 / 2" | "1 / 2 < d" | "d = 1 / 2"
    by linarith
  then show ?thesis
  proof cases
    case 1
    then have "round_half_even z = \<lfloor>z\<rfloor>"
      by (simp add: round_half_even_def Let_def d_def)
    with d 1 show ?thesis
      by (simp add: d_def [symmetric] abs_if; linarith?)
  next
    case 2
    then have "round_half_even z = \<lfloor>z\<rfloor> + 1"
      by (simp add: round_half_even_def Let_def d_def)
    with d 2 show ?thesis
      by (simp add: abs_if d_def; linarith?)
  next
    case 3
    then have "round_half_even z = \<lfloor>z\<rfloor> \<or> round_half_even z = \<lfloor>z\<rfloor> + 1"
      by (simp add: round_half_even_def Let_def d_def)
    with d 3 show ?thesis
      by (auto simp: abs_if d_def)
  qed
qed

lemma round_half_even_nonneg: "0 \<le> z \<Longrightarrow> 0 \<le> round_half_even z"
  by (auto simp: round_half_even_def Let_def)

lemma double_round_error:
  assumes "x \<noteq> 0"
  shows "\<bar>double_round x - x\<bar> \<le> 2 powi (max (binexp x) (- 1022) - 53)"
proof -
  define u :: rat where "u = 2 powi (max (binexp x) (- 1022) - 52)"
  have u: "0 < u"
    by (simp add: u_def)
  have "double_round x - x = (of_int (round_half_even (x / u)) - x / u) * u"
    using assms u by (simp add: double_round_def u_def [symmetric] Let_def algebra_simps)
  then have "\<bar>double_round x - x\<bar> = \<bar>of_int (round_half_even (x / u)) - x / u\<bar> * u"
    using u by (simp add: abs_mult)
  also have "\<dots> \<le> 1 / 2 * u"
    using round_half_even_error [of "x / u"] u by (intro mult_right_mono) simp_all
  also have "1 / 2 * u = 2 powi (max (binexp x) (- 1022) - 53)"
  proof -
    have "(2::rat) powi (max (binexp x) (- 1022) - 53 + 1) = 2 powi (max (binexp x) (- 1022) - 53) * 2"
      by (rule power_int_add_1) simp
    moreover have "max (binexp x) (- 1022) - 53 + 1 = max (binexp x) (- 1022) - 52"
      by simp
    ultimately have "u = 2 powi (max (binexp x) (- 1022) - 53) * 2"
      unfolding u_def by (simp only:)
    then show ?thesis
      by simp
  qed
  finally show ?thesis .
qed

lemma double_round_nonneg: "0 \<le> x \<Longrightarrow> 0 \<le> double_round x"
  by (auto simp: double_round_def Let_def intro!: mult_nonneg_nonneg round_half_even_nonneg)

lemma binexp_ge:
  assumes "x \<noteq> 0" and "2 powi k \<le> \<bar>x\<bar>"
  shows "k \<le> binexp x"
proof (rule ccontr)
  assume "\<not> k \<le> binexp x"
  then have "binexp x + 1 \<le> k"
    by simp
  then have "(2::rat) powi (binexp x + 1) \<le> 2 powi k"
    by (intro power_int_increasing) simp_all
  with assms(2) binexp_bounds(2) [OF assms(1)] show False
    by simp
qed

lemma binexp_less:
  assumes "x \<noteq> 0" and "\<bar>x\<bar> < 2 powi k"
  shows "binexp x < k"
proof (rule ccontr)
  assume "\<not> binexp x < k"
  then have "(2::rat) powi k \<le> 2 powi (binexp x)"
    by (intro power_int_increasing) simp_all
  with assms(2) binexp_bounds(1) [OF assms(1)] show False
    by simp
qed

lemma double_round_error_rel:
  assumes "x \<noteq> 0" and "- 1022 \<le> binexp x"
  shows "\<bar>double_round x - x\<bar> \<le> \<bar>x\<bar> / 2 ^ 53"
proof -
  from assms(2) have "max (binexp x) (- 1022) - 53 = binexp x - 53"
    by simp
  moreover have "(2::rat) powi (binexp x - 53) = 2 powi (binexp x) / 2 powi 53"
    by (rule power_int_diff) simp
  ultimately have "(2::rat) powi (max (binexp x) (- 1022) - 53) = 2 powi (binexp x) / 2 ^ 53"
    by simp
  also have "\<dots> \<le> \<bar>x\<bar> / 2 ^ 53"
    using binexp_bounds(1) [OF assms(1)] by (intro divide_right_mono) simp_all
  finally show ?thesis
    using double_round_error [OF assms(1)] by simp
qed

lemma floor_close:
  fixes s t :: rat
  assumes "\<bar>s - t\<bar> < 1"
  shows "\<bar>\<lfloor>s\<rfloor> - \<lfloor>t\<rfloor>\<bar> \<le> 1"
proof -
  from assms have "s \<le> t + 1" "t \<le> s + 1"
    by linarith+
  then have "\<lfloor>s\<rfloor> \<le> \<lfloor>t + 1\<rfloor>" "\<lfloor>t\<rfloor> \<le> \<lfloor>s + 1\<rfloor>"
    by (simp_all only: floor_mono)
  then show ?thesis
    by simp
qed

lemma double_round_near:
  assumes "0 \<le> x" and "x < 2 powi k" and "- 1022 \<le> k - 1"
  shows "0 \<le> double_round x" and "\<bar>double_round x - x\<bar> \<le> 2 powi (k - 54)"
proof -
  show "0 \<le> double_round x"
    using assms(1) by (rule double_round_nonneg)
  show "\<bar>double_round x - x\<bar> \<le> 2 powi (k - 54)"
  proof (cases "x = 0")
    case True
    then show ?thesis
      by (simp add: double_round_def)
  next
    case False
    with assms have "binexp x < k"
      by (intro binexp_less) simp_all
    with assms(3) have "max (binexp x) (- 1022) - 53 \<le> k - 54"
      by simp
    then have "(2::rat) powi (max (binexp x) (- 1022) - 53) \<le> 2 powi (k - 54)"
      by (intro power_int_increasing) simp_all
    with double_round_error [OF False] show ?thesis
      by simp
  qed
qed

lemma percent_of_small:
  assumes "0 \<le> a" and "a < b"
  shows "\<exists>v. percent_of a b = Some v \<and> 0 \<le> v
           \<and> \<bar>v - \<lfloor>(of_int a / of_int b * 100 :: rat)\<rfloor>\<bar> \<le> 1"
proof -
  define q :: rat where "q = of_int a / of_int b"
  define r1 where "r1 = double_round q"
  define y where "y = r1 * 100"
  define r2 where "r2 = double_round y"
  from assms have b: "0 < b"
    by simp
  from assms have q: "0 \<le> q" "q < 2 powi 0"
    by (simp_all add: q_def)
  have e: "(2::rat) powi (- 54) \<le> 1" "(2::rat) powi (- 46) \<le> 1"
    "(2::rat) powi (- 46) + 2 powi (- 54) * 100 < 1" "(2::rat) powi 0 = 1" "(2::rat) powi 8 = 256"
    by (simp_all add: power_int_minus)
  from double_round_near [OF q] have r1: "0 \<le> r1" "\<bar>r1 - q\<bar> \<le> 2 powi (- 54)"
    by (simp_all add: r1_def)
  with q e have r1': "r1 < 2"
    by linarith
  then have o1: "\<not> overflows r1"
    using r1(1) by (simp add: overflows_def)
  from r1 r1' e have y: "0 \<le> y" "y < 2 powi 8"
    by (simp_all add: y_def)
  from double_round_near [OF y] have r2: "0 \<le> r2" "\<bar>r2 - y\<bar> \<le> 2 powi (- 46)"
    by (simp_all add: r2_def)
  with y e have "r2 < 257"
    by linarith
  then have o2: "\<not> overflows r2"
    using r2(1) by (simp add: overflows_def)
  have p: "percent_of a b = Some \<lfloor>r2\<rfloor>"
    using b o1 o2 r2(1)
    by (simp add: percent_of_def py_truediv_def Let_def q_def [symmetric] r1_def [symmetric]
          y_def [symmetric] r2_def [symmetric] py_trunc_def)
  have "\<bar>r2 - q * 100\<bar> \<le> \<bar>r2 - y\<bar> + \<bar>r1 - q\<bar> * 100"
    by (simp add: y_def abs_if algebra_simps)
  also have "\<dots> \<le> 2 powi (- 46) + 2 powi (- 54) * 100"
    using r1(2) r2(2) by simp
  also have "\<dots> < 1"
    by (rule e(3))
  finally have "\<bar>\<lfloor>r2\<rfloor> - \<lfloor>q * 100\<rfloor>\<bar> \<le> 1"
    by (rule floor_close)
  with p r2(1) show ?thesis
    by (simp add: q_def)
qed

lemma double_round_rel_bounds:
  assumes "1 \<le> x"
  shows "x - x / 2 ^ 53 \<le> double_round x" and "double_round x \<le> x + x / 2 ^ 53"
proof -
  from assms have nz: "x \<noteq> 0" and "2 powi 0 \<le> \<bar>x\<bar>"
    by simp_all
  then have "0 \<le> binexp x"
    by (intro binexp_ge)
  then have "\<bar>double_round x - x\<bar> \<le> \<bar>x\<bar> / 2 ^ 53"
    by (intro double_round_error_rel [OF nz]) simp
  with assms show "x - x / 2 ^ 53 \<le> double_round x" and "double_round x \<le> x + x / 2 ^ 53"
    by (simp_all add: abs_if split: if_splits)
qed

lemma percent_of_large:
  assumes "0 < b" and "b \<le> a" and "a < 2 ^ 1000"
  shows "\<exists>v. percent_of a b = Some v \<and> 99 \<le> v"
proof -
  define q :: rat where "q = of_int a / of_int b"
  define r1 where "r1 = double_round q"
  define y where "y = r1 * 100"
  define r2 where "r2 = double_round y"
  from assms have q1: "1 \<le> q"
    by (simp add: q_def)
  have "q \<le> of_int a / 1"
    unfolding q_def using assms by (intro frac_le) simp_all
  moreover from assms(3) have "(of_int a :: rat) < of_int (2 ^ 1000)"
    by (simp only: of_int_less_iff)
  ultimately have q2: "q < 2 ^ 1000"
    by simp
  note r1 = double_round_rel_bounds [OF q1, folded r1_def]
  from r1 q1 have y1: "1 \<le> y" and y99: "100 - 100 / 2 ^ 53 \<le> y" and yq: "y \<le> 200 * q"
    by (simp_all add: y_def)
  note r2 = double_round_rel_bounds [OF y1, folded r2_def]
  from r2 y99 have lo: "99 \<le> r2"
    by simp
  from r2 yq have hi: "r2 \<le> 400 * q"
    by simp
  have big: "400 * (2::rat) ^ 1000 \<le> 2 ^ 1024"
    by simp
  from r1 q1 q2 big have o1: "\<not> overflows r1"
    by (simp add: overflows_def abs_if)
  from hi lo q2 big have o2: "\<not> overflows r2"
    by (simp add: overflows_def abs_if)
  have "percent_of a b = Some \<lfloor>r2\<rfloor>"
    using assms(1) o1 o2 lo
    by (simp add: percent_of_def py_truediv_def Let_def q_def [symmetric] r1_def [symmetric]
          y_def [symmetric] r2_def [symmetric] py_trunc_def)
  moreover from lo have "99 \<le> \<lfloor>r2\<rfloor>"
    by (simp add: le_floor_iff)
  ultimately show ?thesis
    by simp
qed

lemma percent_of_nonneg:
  assumes "0 \<le> a" and "0 < b" and "a < 2 ^ 1000"
  shows "\<exists>v. percent_of a b = Some v \<and> 0 \<le> min v 99
           \<and> \<bar>min v 99 - min \<lfloor>(of_int a / of_int b * 100 :: rat)\<rfloor> 99\<bar> \<le> 1"
proof (cases "a < b")
  case True
  from percent_of_small [OF assms(1) True] show ?thesis
    by auto
next
  case False
  define q :: rat where "q = of_int a / of_int b"
  from False assms have "1 \<le> q"
    by (simp add: q_def)
  then have "100 \<le> q * 100"
    by simp
  then have "100 \<le> \<lfloor>(of_int a / of_int b * 100 :: rat)\<rfloor>"
    unfolding q_def by (simp only: le_floor_iff of_int_numeral)
  moreover from False assms percent_of_large [of b a]
  obtain v where "percent_of a b = Some v" "99 \<le> v"
    by auto
  ultimately show ?thesis
    by auto
qed

text \<open>
  C5, as the code has it. In the fallback backend, for a line containing \<open>Writing at 0x\<close>
  whose address portion is a valid hexadecimal number not below the flash address, and a
  positive firmware size, the callback is called once, the step counter is unchanged, and
  the percent is \<open>min(int((address - flash_address) / size * 100), 99)\<close> computed in
  double arithmetic: it lies between 0 and 99, never reaches 100, and differs by at most
  one from the floor of the exact quotient clamped at 99. (Below the flash address
  \<open>int\<close> truncates toward zero, which is not the floor.)
\<close>

theorem address_line_percent:
  assumes "split_piece1 ''Writing at 0x'' (py_strip raw) = Some t"
    and "py_int16 (split_piece0 ''...'' t) = Some addr"
    and "0 < firmware_size"
    and "flash_address \<le> addr"
    and "addr - flash_address < 2 ^ 1000"
  shows "\<exists>p. esptool_line True firmware_size flash_address progress raw
               = (progress, [(p, ''Writing firmware... '' @ py_str p @ ''%'')])
           \<and> 0 \<le> p \<and> p \<le> 99
           \<and> \<bar>p - min \<lfloor>(of_int (addr - flash_address) / of_int firmware_size * 100 :: rat)\<rfloor> 99\<bar> \<le> 1"
proof -
  from assms(1) have c: "contains ''Writing at 0x'' (py_strip raw)"
    by (rule split_piece1_contains)
  then have n: "raw \<noteq> []"
    by auto
  from assms(4) have "0 \<le> addr - flash_address"
    by simp
  from percent_of_nonneg [OF this assms(3) assms(5)]
  obtain v where v: "percent_of (addr - flash_address) firmware_size = Some v"
    and v0: "0 \<le> min v 99"
    and v1: "\<bar>min v 99 - min \<lfloor>(of_int (addr - flash_address) / of_int firmware_size * 100 :: rat)\<rfloor> 99\<bar> \<le> 1"
    by blast
  have "esptool_line True firmware_size flash_address progress raw
          = (progress, [(min v 99, ''Writing firmware... '' @ py_str (min v 99) @ ''%'')])"
    using c n assms(1,2,3) v
    by (simp add: esptool_line_def esptool_writing_try_def report_def Let_def)
  with v0 v1 show ?thesis
    by (intro exI [of _ "min v 99"]) simp
qed

theorem address_line_percent_witness:
  "esptool_line True 10000 4096 40 ''Writing at 0x2710'' = (40, [(59, ''Writing firmware... 59%'')])
   \<and> (\<exists>p. esptool_line True 10000 4096 40 ''Writing at 0x2710''
               = (40, [(p, ''Writing firmware... '' @ py_str p @ ''%'')])
           \<and> 0 \<le> p \<and> p \<le> 99
           \<and> \<bar>p - min \<lfloor>(of_int (10000 - 4096) / of_int 10000 * 100 :: rat)\<rfloor> 99\<bar> \<le> 1)"
proof
  show "esptool_line True 10000 4096 40 ''Writing at 0x2710'' = (40, [(59, ''Writing firmware... 59%'')])"
    by code_simp
next
  have a: "split_piece1 ''Writing at 0x'' (py_strip ''Writing at 0x2710'') = Some ''2710''"
    by code_simp
  have b: "py_int16 (split_piece0 ''...'' ''2710'') = Some 10000"
    by code_simp
  have c: "(0::int) < 10000" "(4096::int) \<le> 10000" "(10000::int) - 4096 < 2 ^ 1000"
    by simp_all
  from address_line_percent [OF a b c, of 40]
  show "\<exists>p. esptool_line True 10000 4096 40 ''Writing at 0x2710''
               = (40, [(p, ''Writing firmware... '' @ py_str p @ ''%'')])
           \<and> 0 \<le> p \<and> p \<le> 99
           \<and> \<bar>p - min \<lfloor>(of_int (10000 - 4096) / of_int 10000 * 100 :: rat)\<rfloor> 99\<bar> \<le> 1" .
qed

text \<open>
  The claim as stated fails twice. One block below the flash address, where the exact
  value is \<open>-0.4096\<close>, the percent is 0 and the floor is \<open>-1\<close>. And at 29 bytes of
  100 the double product is \<open>28.999999999999996\<close>, so the percent is 28 and the floor
  of the exact value is 29.
\<close>

theorem address_percent_is_not_floor:
  "esptool_line True 1000000 4096 40 ''Writing at 0x00000000... (0 %)''
     = (40, [(0, ''Writing firmware... 0%'')])
   \<and> min \<lfloor>(of_int (0 - 4096) / of_int 1000000 * 100 :: rat)\<rfloor> 99 = - 1
   \<and> esptool_line True 100 0 40 ''Writing at 0x0000001d... (29 %)''
     = (40, [(28, ''Writing firmware... 28%'')])
   \<and> min \<lfloor>(of_int (29 - 0) / of_int 100 * 100 :: rat)\<rfloor> 99 = 29"
  by code_simp

end
